theory Spec2Isabelle
  imports Complex_Main
begin

section \<open>Data model of the graph viewer\<close>

text \<open>
  The component \<^verbatim>\<open>GraphViewer\<close> works on JavaScript objects that refer to each other
  (a node lists its neighbour objects and its incident link objects, a resolved link
  holds its endpoint objects).  Object identity is a reference; the fields are read
  through an object store.  Optional fields are \<open>option\<close> values, \<open>None\<close> standing
  for \<^verbatim>\<open>undefined\<close>.  Identifiers that JavaScript renders with \<^verbatim>\<open>toString()\<close>
  before comparing (\<^verbatim>\<open>human_readable_id\<close>, the \<^verbatim>\<open>id\<close> of a response item) are kept as
  the rendered string.

  Field names follow \<^verbatim>\<open>CustomNode\<close> and \<^verbatim>\<open>CustomLink\<close>; \<^verbatim>\<open>id\<close>, \<^verbatim>\<open>type\<close>,
  \<^verbatim>\<open>text\<close>, \<^verbatim>\<open>x\<close>, \<^verbatim>\<open>y\<close> and \<^verbatim>\<open>links\<close> of a node carry the prefix \<open>node_\<close>, and
  \<^verbatim>\<open>type\<close> and \<^verbatim>\<open>human_readable_id\<close> of a link the prefix \<open>link_\<close>.
\<close>

type_synonym nref = nat
type_synonym lref = nat

datatype endpoint = EndId string | EndNode nref

record node =
  node_id :: string
  uuid :: "string option"
  name :: "string option"
  node_type :: "string option"
  human_readable_id :: "string option"
  covariate_type :: "string option"
  node_text :: "string option"
  node_x :: "rat option"
  node_y :: "rat option"
  degree :: "nat option"
  neighbors :: "nref list option"
  node_links :: "lref list option"

record link =
  source :: endpoint
  target :: endpoint
  link_type :: "string option"
  link_human_readable_id :: "string option"

record heap =
  node_at :: "nref \<Rightarrow> node"
  link_at :: "lref \<Rightarrow> link"

text \<open>The graph data \<^verbatim>\<open>{nodes, links}\<close>.  The nodes are existing objects (references) in
  the dataset the component receives, and freshly built objects (their field values) in
  the memoised data it hands to the render surface.\<close>

record 'n CustomGraphData =
  nodes :: "'n list"
  links :: "lref list"

text \<open>
  A response item of the remote search.  Its \<^verbatim>\<open>text\<close> is compared with \<^verbatim>\<open>===\<close> as it
  comes: it is absent (\<^verbatim>\<open>undefined\<close>), a string, or a value that is no string
  (\<^verbatim>\<open>null\<close>, a number, ...), which is equal to no string and not to \<^verbatim>\<open>undefined\<close>.
  Its \<^verbatim>\<open>id\<close> is read with \<^verbatim>\<open>item.id.toString()\<close>: \<open>Some\<close> of the rendered string, or
  \<open>None\<close> for an \<^verbatim>\<open>id\<close> that is \<^verbatim>\<open>undefined\<close> or \<^verbatim>\<open>null\<close>, on both of which the
  call throws.

  The \<^verbatim>\<open>context_data\<close> object is its entries in \<^verbatim>\<open>Object.entries\<close> order, a value being
  an array of items (\<open>Some\<close>) or anything else (\<open>None\<close>).  A falsy \<^verbatim>\<open>context_data\<close> is
  \<open>None\<close>.
\<close>

datatype json_text = TextUndefined | TextNoString | TextString string

record item =
  item_id :: "string option"
  item_text :: json_text

type_synonym contextData = "(string \<times> item list option) list"

record SearchResult =
  context_data :: "contextData option"

text \<open>
  The props and the React state of the component that the properties below read,
  together with what the component has handed to the browser and not got back: the
  workers it created that have not answered (each with the message posted to it) and
  the callbacks it registered with \<^verbatim>\<open>requestAnimationFrame\<close> that have not run (each
  \<^verbatim>\<open>addNodes\<close> closure is the node array it captured and its \<^verbatim>\<open>currentIndex\<close>).
\<close>

record viewer =
  data :: "nref CustomGraphData"
  includeDocuments :: bool
  includeTextUnits :: bool
  includeCommunities :: bool
  includeCovariates :: bool
  hasDocuments :: bool
  hasTextUnits :: bool
  hasCommunities :: bool
  hasCovariates :: bool
  highlightNodes :: "nref set"
  highlightLinks :: "lref set"
  hoverNode :: "nref option"
  showHighlight :: bool
  apiSearchResults :: "SearchResult option"
  graphData :: "nref CustomGraphData"
  initialGraphData :: "nref CustomGraphData"
  graphZoom :: real
  workerRunning :: bool
  visibleNodes :: "nref list"
  workers :: "nref CustomGraphData list"
  animationFrames :: "(nref list \<times> nat) list"

datatype error = TypeError

section \<open>Category checkboxes\<close>

datatype category = Documents | TextUnits | Communities | Covariates

text \<open>The \<^verbatim>\<open>onChange\<close> handlers of the four checkboxes of the \<^verbatim>\<open>FormGroup\<close>.\<close>

fun onChange :: "category \<Rightarrow> viewer \<Rightarrow> viewer" where
  "onChange Documents v = v\<lparr>includeDocuments := \<not> includeDocuments v\<rparr>"
| "onChange TextUnits v =
     (if \<not> includeTextUnits v then v\<lparr>includeTextUnits := True\<rparr>
      else if includeTextUnits v \<and> \<not> includeCovariates v then v\<lparr>includeTextUnits := False\<rparr>
      else v\<lparr>includeTextUnits := False, includeCovariates := False\<rparr>)"
| "onChange Communities v = v\<lparr>includeCommunities := \<not> includeCommunities v\<rparr>"
| "onChange Covariates v =
     (if \<not> includeCovariates v then
        (let v' = (if \<not> includeTextUnits v then v\<lparr>includeTextUnits := True\<rparr> else v)
         in v'\<lparr>includeCovariates := True\<rparr>)
      else v\<lparr>includeCovariates := False\<rparr>)"

text \<open>The \<^verbatim>\<open>disabled\<close> prop of each checkbox.\<close>

fun disabled :: "category \<Rightarrow> viewer \<Rightarrow> bool" where
  "disabled Documents v = (\<not> hasDocuments v \<or> apiSearchResults v \<noteq> None)"
| "disabled TextUnits v = (\<not> hasTextUnits v \<or> apiSearchResults v \<noteq> None)"
| "disabled Communities v = (\<not> hasCommunities v \<or> apiSearchResults v \<noteq> None)"
| "disabled Covariates v = (\<not> hasCovariates v \<or> apiSearchResults v \<noteq> None)"

fun has_category :: "category \<Rightarrow> viewer \<Rightarrow> bool" where
  "has_category Documents v = hasDocuments v"
| "has_category TextUnits v = hasTextUnits v"
| "has_category Communities v = hasCommunities v"
| "has_category Covariates v = hasCovariates v"

text \<open>A click on a checkbox: a disabled input fires no change event.\<close>

definition click :: "category \<Rightarrow> viewer \<Rightarrow> viewer" where
  "click c v = (if disabled c v then v else onChange c v)"

section \<open>Category filter\<close>

text \<open>\<^verbatim>\<open>String.prototype.toLowerCase\<close> on the letters that decide the comparison with the
  four lower-case ASCII literals of the \<^verbatim>\<open>switch\<close>.\<close>

definition js_lower_char :: "char \<Rightarrow> char" where
  "js_lower_char c =
     (case map_of (zip ''ABCDEFGHIJKLMNOPQRSTUVWXYZ'' ''abcdefghijklmnopqrstuvwxyz'') c of
        Some d \<Rightarrow> d
      | None \<Rightarrow> c)"

definition toLowerCase :: "string \<Rightarrow> string" where
  "toLowerCase s = map js_lower_char s"

text \<open>\<^verbatim>\<open>optimizedNodes\<close>: a fresh copy of every node of \<^verbatim>\<open>data.nodes\<close> with
  \<^verbatim>\<open>degree: node.neighbors?.length || 0\<close>.\<close>

definition optimizedNodes :: "heap \<Rightarrow> viewer \<Rightarrow> node list" where
  "optimizedNodes h v =
     map (\<lambda>r. (node_at h r)\<lparr>degree :=
            Some (case neighbors (node_at h r) of None \<Rightarrow> 0 | Some ns \<Rightarrow> length ns)\<rparr>)
       (nodes (data v))"

text \<open>The predicate of \<^verbatim>\<open>optimizedNodes.filter\<close>: the \<^verbatim>\<open>switch\<close> on
  \<^verbatim>\<open>node.type?.toLowerCase()\<close>.\<close>

definition keep_node :: "viewer \<Rightarrow> node \<Rightarrow> bool" where
  "keep_node v n =
     (case map_option toLowerCase (node_type n) of
        None \<Rightarrow> True
      | Some t \<Rightarrow>
          if t = ''textunit'' then includeTextUnits v
          else if t = ''community'' then includeCommunities v
          else if t = ''covariate'' then includeCovariates v
          else if t = ''document'' then includeDocuments v
          else True)"

text \<open>\<^verbatim>\<open>typeof e === 'object' ? (e as CustomNode).id : e\<close>\<close>

definition endpoint_id :: "heap \<Rightarrow> endpoint \<Rightarrow> string" where
  "endpoint_id h e = (case e of EndNode r \<Rightarrow> node_id (node_at h r) | EndId s \<Rightarrow> s)"

definition filteredGraphData :: "heap \<Rightarrow> viewer \<Rightarrow> node CustomGraphData" where
  "filteredGraphData h v =
     (let filteredNodes = filter (keep_node v) (optimizedNodes h v);
          nodeIds = set (map node_id filteredNodes);
          filteredLinks =
            filter (\<lambda>l. endpoint_id h (source (link_at h l)) \<in> nodeIds
                      \<and> endpoint_id h (target (link_at h l)) \<in> nodeIds)
              (links (data v))
      in \<lparr>nodes = filteredNodes, links = filteredLinks\<rparr>)"

section \<open>Visibility at low zoom\<close>

text \<open>\<^verbatim>\<open>d > 2\<close> on a degree that may be \<^verbatim>\<open>undefined\<close> (the comparison is then false).\<close>

definition gt2 :: "nat option \<Rightarrow> bool" where
  "gt2 d = (case d of None \<Rightarrow> False | Some k \<Rightarrow> 2 < k)"

text \<open>The \<^verbatim>\<open>nodeVisibility\<close> and \<^verbatim>\<open>linkVisibility\<close> props of the 2D surface.\<close>

definition nodeVisibility :: "viewer \<Rightarrow> node \<Rightarrow> bool" where
  "nodeVisibility v n = (if graphZoom v < 0.5 then gt2 (degree n) else True)"

definition linkVisibility :: "heap \<Rightarrow> viewer \<Rightarrow> link \<Rightarrow> bool" where
  "linkVisibility h v l =
     (if graphZoom v < 0.5 then
        (case source l of
           EndId _ \<Rightarrow> False
         | EndNode s \<Rightarrow>
             (case target l of
                EndId _ \<Rightarrow> False
              | EndNode t \<Rightarrow> gt2 (degree (node_at h s)) \<or> gt2 (degree (node_at h t))))
      else True)"

section \<open>Hover handlers\<close>

text \<open>\<^verbatim>\<open>a?.forEach(x => s.add(x))\<close> on an optional array \<open>a\<close> and a set \<open>s\<close>.\<close>

definition add_all :: "'a list option \<Rightarrow> 'a set \<Rightarrow> 'a set" where
  "add_all a s = (case a of None \<Rightarrow> s | Some xs \<Rightarrow> fold insert xs s)"

definition handleNodeHover :: "heap \<Rightarrow> nref option \<Rightarrow> viewer \<Rightarrow> viewer" where
  "handleNodeHover h nd v =
     (let newHighlightNodes =
            (case nd of
               None \<Rightarrow> {}
             | Some n \<Rightarrow> add_all (neighbors (node_at h n)) (insert n {}));
          newHighlightLinks =
            (case nd of
               None \<Rightarrow> {}
             | Some n \<Rightarrow> add_all (node_links (node_at h n)) {})
      in v\<lparr>highlightNodes := newHighlightNodes, highlightLinks := newHighlightLinks,
           hoverNode := nd\<rparr>)"

text \<open>\<^verbatim>\<open>if (typeof e !== "string") s.add(e)\<close>\<close>

definition add_resolved :: "endpoint \<Rightarrow> nref set \<Rightarrow> nref set" where
  "add_resolved e s = (case e of EndId _ \<Rightarrow> s | EndNode r \<Rightarrow> insert r s)"

definition handleLinkHover :: "heap \<Rightarrow> lref option \<Rightarrow> viewer \<Rightarrow> viewer" where
  "handleLinkHover h ld v =
     (let newHighlightLinks = (case ld of None \<Rightarrow> {} | Some l \<Rightarrow> insert l {});
          newHighlightNodes =
            (case ld of
               None \<Rightarrow> {}
             | Some l \<Rightarrow> add_resolved (target (link_at h l)) (add_resolved (source (link_at h l)) {}))
      in v\<lparr>highlightNodes := newHighlightNodes, highlightLinks := newHighlightLinks\<rparr>)"

text \<open>The \<^verbatim>\<open>onNodeHover\<close> prop of the 2D surface:
  \<^verbatim>\<open>showHighlight ? handleNodeHover : undefined\<close>.  The surface calls the prop once for
  every hover event it reports; \<open>hover_events\<close> lists the component state after each call,
  that is after each recomputation of the highlight sets.  An event carries the time (in
  milliseconds) at which the surface reports it.\<close>

definition onNodeHover :: "heap \<Rightarrow> viewer \<Rightarrow> (nref option \<Rightarrow> viewer \<Rightarrow> viewer) option" where
  "onNodeHover h v = (if showHighlight v then Some (handleNodeHover h) else None)"

fun hover_events :: "heap \<Rightarrow> (nat \<times> nref option) list \<Rightarrow> viewer \<Rightarrow> viewer list" where
  "hover_events h [] v = []"
| "hover_events h ((t, nd) # evs) v =
     (case onNodeHover h v of
        None \<Rightarrow> hover_events h evs v
      | Some f \<Rightarrow> f nd v # hover_events h evs (f nd v))"

section \<open>External-result mapper\<close>

text \<open>Truthiness of an optional string (\<^verbatim>\<open>undefined\<close> and \<^verbatim>\<open>""\<close> are falsy).\<close>

definition truthy :: "string option \<Rightarrow> bool" where
  "truthy s = (case s of None \<Rightarrow> False | Some t \<Rightarrow> t \<noteq> [])"

text \<open>\<^verbatim>\<open>node.text?.toString() === item.text\<close>: the left side is \<^verbatim>\<open>undefined\<close> or a
  string.\<close>

definition text_equals :: "string option \<Rightarrow> json_text \<Rightarrow> bool" where
  "text_equals nt t =
     (case t of
        TextUndefined \<Rightarrow> nt = None
      | TextNoString \<Rightarrow> False
      | TextString s \<Rightarrow> nt = Some s)"

text \<open>\<^verbatim>\<open>xs.find(x => ... item.id.toString() ...)\<close>: the callback runs on the first element
  already, and \<^verbatim>\<open>item.id.toString()\<close> throws a \<^verbatim>\<open>TypeError\<close> when the item has no
  \<^verbatim>\<open>id\<close>; on an empty array the callback never runs.\<close>

fun find_by_id :: "(string \<Rightarrow> 'a \<Rightarrow> bool) \<Rightarrow> string option \<Rightarrow> 'a list \<Rightarrow> error + 'a option" where
  "find_by_id p iid [] = Inr None"
| "find_by_id p None (x # xs) = Inl TypeError"
| "find_by_id p (Some s) (x # xs) = Inr (find (p s) (x # xs))"

text \<open>\<^verbatim>\<open>if (existing) acc.push(existing)\<close> after a \<^verbatim>\<open>find\<close> that may have thrown.\<close>

definition push_found :: "error + 'a option \<Rightarrow> 'a list \<Rightarrow> error + 'a list" where
  "push_found r acc =
     (case r of Inl e \<Rightarrow> Inl e | Inr None \<Rightarrow> Inr acc | Inr (Some x) \<Rightarrow> Inr (acc @ [x]))"

text \<open>The body of \<^verbatim>\<open>items.forEach\<close>: the chain on \<^verbatim>\<open>key\<close>, on the accumulators
  \<^verbatim>\<open>newNodes\<close> and \<^verbatim>\<open>newLinks\<close>.\<close>

definition process_item ::
  "heap \<Rightarrow> nref CustomGraphData \<Rightarrow> string \<Rightarrow> item \<Rightarrow> nref list \<times> lref list
     \<Rightarrow> error + nref list \<times> lref list" where
  "process_item h baseGraphData key it acc =
     (case acc of (newNodes, newLinks) \<Rightarrow>
        if key = ''relationships'' then
          map_sum id (\<lambda>ls. (newNodes, ls))
            (push_found
               (find_by_id (\<lambda>s l. link_human_readable_id (link_at h l) = Some s)
                  (item_id it) (links baseGraphData))
               newLinks)
        else if key = ''entities'' then
          map_sum id (\<lambda>ns. (ns, newLinks))
            (push_found
               (find_by_id (\<lambda>s n. human_readable_id (node_at h n) = Some s
                                  \<and> \<not> truthy (covariate_type (node_at h n)))
                  (item_id it) (nodes baseGraphData))
               newNodes)
        else if key = ''reports'' then
          map_sum id (\<lambda>ns. (ns, newLinks))
            (push_found
               (find_by_id (\<lambda>s n. uuid (node_at h n) = Some s)
                  (item_id it) (nodes baseGraphData))
               newNodes)
        else if key = ''sources'' then
          map_sum id (\<lambda>ns. (ns, newLinks))
            (push_found
               (Inr (find (\<lambda>n. text_equals (node_text (node_at h n)) (item_text it))
                       (nodes baseGraphData)))
               newNodes)
        else if key = ''covariates'' \<or> key = ''claims'' then
          map_sum id (\<lambda>ns. (ns, newLinks))
            (push_found
               (find_by_id (\<lambda>s n. human_readable_id (node_at h n) = Some s
                                  \<and> truthy (covariate_type (node_at h n)))
                  (item_id it) (nodes baseGraphData))
               newNodes)
        else Inr acc)"

fun forEach_items ::
  "heap \<Rightarrow> nref CustomGraphData \<Rightarrow> string \<Rightarrow> item list \<Rightarrow> nref list \<times> lref list
     \<Rightarrow> error + nref list \<times> lref list" where
  "forEach_items h b key [] acc = Inr acc"
| "forEach_items h b key (it # its) acc =
     (case process_item h b key it acc of
        Inl e \<Rightarrow> Inl e
      | Inr acc' \<Rightarrow> forEach_items h b key its acc')"

text \<open>\<^verbatim>\<open>Object.entries(contextData).forEach\<close>; a value that is not an array is skipped.\<close>

fun forEach_entries ::
  "heap \<Rightarrow> nref CustomGraphData \<Rightarrow> contextData \<Rightarrow> nref list \<times> lref list
     \<Rightarrow> error + nref list \<times> lref list" where
  "forEach_entries h b [] acc = Inr acc"
| "forEach_entries h b ((key, None) # es) acc = forEach_entries h b es acc"
| "forEach_entries h b ((key, Some its) # es) acc =
     (case forEach_items h b key its acc of
        Inl e \<Rightarrow> Inl e
      | Inr acc' \<Rightarrow> forEach_entries h b es acc')"

text \<open>\<^verbatim>\<open>updateGraphData\<close>: an exception leaves the function before \<^verbatim>\<open>setGraphData\<close>.\<close>

definition updateGraphData :: "heap \<Rightarrow> contextData option \<Rightarrow> viewer \<Rightarrow> error + viewer" where
  "updateGraphData h contextData v =
     (case contextData of
        None \<Rightarrow> Inr v
      | Some cd \<Rightarrow>
          (case forEach_entries h (initialGraphData v) cd ([], []) of
             Inl e \<Rightarrow> Inl e
           | Inr (newNodes, newLinks) \<Rightarrow>
               Inr (v\<lparr>graphData := \<lparr>nodes = newNodes, links = newLinks\<rparr>\<rparr>)))"

text \<open>
  The matching rules as the specification tabulates them, for comparison with the loop
  above: what one item of the array under \<open>key\<close> resolves to in the base dataset, and the
  matched nodes and links of a whole response, unmatched items left out.
\<close>

definition spec_resolve_node :: "heap \<Rightarrow> nref list \<Rightarrow> string \<Rightarrow> item \<Rightarrow> nref option" where
  "spec_resolve_node h ns key it =
     (if key = ''entities'' then
        find (\<lambda>n. human_readable_id (node_at h n) = item_id it
                  \<and> \<not> truthy (covariate_type (node_at h n))) ns
      else if key = ''reports'' then
        find (\<lambda>n. uuid (node_at h n) = item_id it) ns
      else if key = ''sources'' then
        find (\<lambda>n. text_equals (node_text (node_at h n)) (item_text it)) ns
      else if key = ''covariates'' \<or> key = ''claims'' then
        find (\<lambda>n. human_readable_id (node_at h n) = item_id it
                  \<and> truthy (covariate_type (node_at h n))) ns
      else None)"

definition spec_resolve_link :: "heap \<Rightarrow> lref list \<Rightarrow> string \<Rightarrow> item \<Rightarrow> lref option" where
  "spec_resolve_link h ls key it =
     (if key = ''relationships'' then
        find (\<lambda>l. link_human_readable_id (link_at h l) = item_id it) ls
      else None)"

text \<open>An optional value as a list of no or one element.\<close>

definition opt_list :: "'a option \<Rightarrow> 'a list" where
  "opt_list x = (case x of None \<Rightarrow> [] | Some y \<Rightarrow> [y])"

definition array_items :: "contextData \<Rightarrow> (string \<times> item) list" where
  "array_items cd =
     concat (map (\<lambda>(key, a). case a of None \<Rightarrow> [] | Some its \<Rightarrow> map (Pair key) its) cd)"

definition spec_matched :: "heap \<Rightarrow> nref CustomGraphData \<Rightarrow> contextData \<Rightarrow> nref CustomGraphData" where
  "spec_matched h b cd =
     \<lparr>nodes = List.map_filter (\<lambda>(key, it). spec_resolve_node h (nodes b) key it) (array_items cd),
      links = List.map_filter (\<lambda>(key, it). spec_resolve_link h (links b) key it) (array_items cd)\<rparr>"

text \<open>The keys whose rule reads the item's \<^verbatim>\<open>id\<close>, and the responses in which every item
  under such a key carries one.\<close>

definition id_keyed :: "string \<Rightarrow> bool" where
  "id_keyed key = (key \<in> set [''relationships'', ''entities'', ''reports'', ''covariates'', ''claims''])"

definition items_have_ids :: "contextData \<Rightarrow> bool" where
  "items_have_ids cd = list_all (\<lambda>(key, it). id_keyed key \<longrightarrow> item_id it \<noteq> None) (array_items cd)"

section \<open>Level-of-detail clustering\<close>

text \<open>
  \<^verbatim>\<open>Math.round(c / threshold)\<close> on a coordinate that may be \<^verbatim>\<open>undefined\<close>.  Numbers
  are rationals and the quotient is exact (the rounding of the quotient to a double is
  not modelled); \<^verbatim>\<open>Math.round\<close> rounds a half upwards.  An \<^verbatim>\<open>undefined\<close>
  coordinate gives \<^verbatim>\<open>NaN\<close>, a zero threshold \<^verbatim>\<open>NaN\<close> or an infinity.
\<close>

datatype rounded = RInt int | RPosInf | RNegInf | RNaN

definition round_div :: "rat option \<Rightarrow> rat \<Rightarrow> rounded" where
  "round_div c threshold =
     (case c of
        None \<Rightarrow> RNaN
      | Some q \<Rightarrow>
          if threshold = 0 then (if q = 0 then RNaN else if 0 < q then RPosInf else RNegInf)
          else RInt \<lfloor>q / threshold + 1 / 2\<rfloor>)"

text \<open>The cell key.  The source renders the two rounded numbers into the string
  \<^verbatim>\<open>`${rx},${ry}`\<close>, which determines the pair and is determined by it; the pair itself
  is the key here.\<close>

definition clusterKey :: "heap \<Rightarrow> rat \<Rightarrow> nref \<Rightarrow> rounded \<times> rounded" where
  "clusterKey h threshold n =
     (round_div (node_x (node_at h n)) threshold, round_div (node_y (node_at h n)) threshold)"

text \<open>The object \<^verbatim>\<open>clusters\<close>: its keys in creation order, each with its array.
  \<^verbatim>\<open>if (!clusters[k]) clusters[k] = []; clusters[k].push(node)\<close>\<close>

fun push_cluster :: "'k \<Rightarrow> 'a \<Rightarrow> ('k \<times> 'a list) list \<Rightarrow> ('k \<times> 'a list) list" where
  "push_cluster k x [] = [(k, [x])]"
| "push_cluster k x ((k', xs) # cs) =
     (if k = k' then (k', xs @ [x]) # cs else (k', xs) # push_cluster k x cs)"

definition group_nodes :: "('a \<Rightarrow> 'k) \<Rightarrow> 'a list \<Rightarrow> ('k \<times> 'a list) list" where
  "group_nodes key ns = fold (\<lambda>n cs. push_cluster (key n) n cs) ns []"

text \<open>\<^verbatim>\<open>Array.prototype.join\<close>, and the decimal rendering of a length.\<close>

fun join :: "string \<Rightarrow> string list \<Rightarrow> string" where
  "join sep [] = []"
| "join sep [s] = s"
| "join sep (s # t # ss) = s @ sep @ join sep (t # ss)"

fun show_nat :: "nat \<Rightarrow> string" where
  "show_nat n =
     (if n < 10 then [''0123456789'' ! n]
      else show_nat (n div 10) @ [''0123456789'' ! (n mod 10)])"

definition NODE_R :: real where
  "NODE_R = 6"

text \<open>The synthetic cluster object; the field \<^verbatim>\<open>nodes\<close> is \<open>cluster_nodes\<close>, the other
  fields carry the prefix \<open>cluster_\<close>.\<close>

record cluster =
  cluster_id :: string
  cluster_uuid :: string
  cluster_name :: string
  cluster_type :: string
  cluster_size :: real
  cluster_flag :: bool
  cluster_nodes :: "nref list"

text \<open>An element of the clustered node list: a node of the input, or a cluster object.\<close>

datatype lod_node = Plain nref | ClusterNode cluster

text \<open>The callback of \<^verbatim>\<open>Object.values(clusters).map\<close>; \<^verbatim>\<open>join\<close> renders an
  \<^verbatim>\<open>undefined\<close> uuid as the empty string.\<close>

definition make_cluster :: "heap \<Rightarrow> nref list \<Rightarrow> lod_node" where
  "make_cluster h c =
     (case c of
        [n] \<Rightarrow> Plain n
      | _ \<Rightarrow>
          ClusterNode
            \<lparr>cluster_id = ''cluster-'' @ join ''-'' (map (\<lambda>n. node_id (node_at h n)) c),
             cluster_uuid =
               ''cluster-'' @
                 join ''-'' (map (\<lambda>n. case uuid (node_at h n) of None \<Rightarrow> [] | Some u \<Rightarrow> u) c),
             cluster_name = ''Cluster ('' @ show_nat (length c) @ '')'',
             cluster_type = ''cluster'',
             cluster_size = sqrt (real (length c)) * NODE_R,
             cluster_flag = True,
             cluster_nodes = c\<rparr>)"

definition clusterNodes :: "heap \<Rightarrow> nref list \<Rightarrow> rat \<Rightarrow> lod_node list" where
  "clusterNodes h ns threshold =
     map (\<lambda>(k, c). make_cluster h c) (group_nodes (clusterKey h threshold) ns)"

text \<open>The \<^verbatim>\<open>id\<close> of an element of the clustered list.\<close>

definition lod_id :: "heap \<Rightarrow> lod_node \<Rightarrow> string" where
  "lod_id h e = (case e of Plain n \<Rightarrow> node_id (node_at h n) | ClusterNode c \<Rightarrow> cluster_id c)"

text \<open>The members of the cell of key \<open>k\<close>, in the order of the input, and the cell keys in
  the order of their first member.\<close>

definition cell :: "('a \<Rightarrow> 'k) \<Rightarrow> 'a list \<Rightarrow> 'k \<Rightarrow> 'a list" where
  "cell key ns k = filter (\<lambda>n. key n = k) ns"

definition cell_keys :: "('a \<Rightarrow> 'k) \<Rightarrow> 'a list \<Rightarrow> 'k list" where
  "cell_keys key ns = rev (remdups (rev (map key ns)))"

section \<open>Progressive reveal\<close>

definition chunkSize :: nat where
  "chunkSize = 100"

text \<open>One run of the closure \<^verbatim>\<open>addNodes\<close>, given as the node array it captured and the
  value of its \<^verbatim>\<open>currentIndex\<close>: it appends the next slice to the visible list and
  registers itself again while nodes remain.\<close>

definition addNodes :: "nref list \<times> nat \<Rightarrow> viewer \<Rightarrow> viewer" where
  "addNodes cb v =
     (case cb of (dataNodes, currentIndex) \<Rightarrow>
        (let nextNodes = take chunkSize (drop currentIndex dataNodes);
             v' = v\<lparr>visibleNodes := visibleNodes v @ nextNodes\<rparr>
         in if currentIndex + chunkSize < length dataNodes
            then v'\<lparr>animationFrames := animationFrames v' @ [(dataNodes, currentIndex + chunkSize)]\<rparr>
            else v'))"

text \<open>The effect on \<^verbatim>\<open>[data]\<close>: reset the visible list and register \<^verbatim>\<open>addNodes\<close> with
  index 0.  The effect returns no cleanup.\<close>

definition reveal_effect :: "viewer \<Rightarrow> viewer" where
  "reveal_effect v =
     v\<lparr>visibleNodes := [], animationFrames := animationFrames v @ [(nodes (data v), 0)]\<rparr>"

text \<open>An animation frame of the browser: the callbacks registered before the frame run in
  the order of their registration; what they register runs in a later frame.\<close>

definition animation_frame :: "viewer \<Rightarrow> viewer" where
  "animation_frame v = fold addNodes (animationFrames v) (v\<lparr>animationFrames := []\<rparr>)"

datatype reveal_event = NewSnapshot "nref CustomGraphData" | Frame

fun reveal_step :: "reveal_event \<Rightarrow> viewer \<Rightarrow> viewer" where
  "reveal_step (NewSnapshot d) v = reveal_effect (v\<lparr>data := d\<rparr>)"
| "reveal_step Frame v = animation_frame v"

definition reveal_run :: "reveal_event list \<Rightarrow> viewer \<Rightarrow> viewer" where
  "reveal_run evs v = fold reveal_step evs v"

section \<open>Layout offload\<close>

text \<open>The effect on \<^verbatim>\<open>[data, workerRunning]\<close>: create a worker, post the data, set the
  flag.  The effect returns no cleanup.\<close>

definition worker_effect :: "viewer \<Rightarrow> viewer" where
  "worker_effect v =
     (if \<not> workerRunning v \<and> 1000 < length (nodes (data v))
      then v\<lparr>workers := workers v @ [data v], workerRunning := True\<rparr>
      else v)"

text \<open>\<^verbatim>\<open>worker.onmessage\<close>, the only handler the component sets on a worker.\<close>

definition onmessage :: "nref CustomGraphData \<Rightarrow> viewer \<Rightarrow> viewer" where
  "onmessage event_data v = v\<lparr>graphData := event_data, workerRunning := False\<rparr>"

text \<open>
  What happens to the component around an offload: a new \<^verbatim>\<open>data\<close> prop arrives; the
  \<open>k\<close>-th pending worker answers; the \<open>k\<close>-th pending worker fails (an \<^verbatim>\<open>error\<close> event,
  for which the component has set no handler, so that no state changes).  After a change
  of \<^verbatim>\<open>data\<close> or of \<^verbatim>\<open>workerRunning\<close> the effect runs again.
\<close>

datatype worker_event =
  SetData "nref CustomGraphData"
| WorkerMessage nat "nref CustomGraphData"
| WorkerError nat

definition remove_nth :: "nat \<Rightarrow> 'a list \<Rightarrow> 'a list" where
  "remove_nth k xs = take k xs @ drop (Suc k) xs"

fun offload_step :: "worker_event \<Rightarrow> viewer \<Rightarrow> viewer" where
  "offload_step (SetData d) v =
     worker_effect (v\<lparr>data := d, graphData := d, initialGraphData := d\<rparr>)"
| "offload_step (WorkerMessage k event_data) v =
     (if k < length (workers v)
      then worker_effect (onmessage event_data (v\<lparr>workers := remove_nth k (workers v)\<rparr>))
      else v)"
| "offload_step (WorkerError k) v =
     (if k < length (workers v) then v\<lparr>workers := remove_nth k (workers v)\<rparr> else v)"

definition offload_run :: "worker_event list \<Rightarrow> viewer \<Rightarrow> viewer" where
  "offload_run evs v = fold offload_step evs v"

section \<open>Sample data\<close>

text \<open>A small dataset: a person \<open>a\<close> linked to a text unit \<open>b\<close>, a claim \<open>c\<close> and a
  document \<open>d\<close>; the first link is resolved, the others carry identifiers.\<close>

definition blank_node :: node where
  "blank_node = \<lparr>node_id = [], uuid = None, name = None, node_type = None,
     human_readable_id = None, covariate_type = None, node_text = None,
     node_x = None, node_y = None, degree = None, neighbors = None, node_links = None\<rparr>"

definition node_a :: node where
  "node_a = blank_node\<lparr>node_id := ''a'', uuid := Some ''ua'', node_type := Some ''PERSON'',
     human_readable_id := Some ''5'', node_x := Some 10, node_y := Some 20,
     neighbors := Some [1, 2, 3], node_links := Some [0, 1, 2]\<rparr>"

definition node_b :: node where
  "node_b = blank_node\<lparr>node_id := ''b'', uuid := Some ''ub'', node_type := Some ''TextUnit'',
     human_readable_id := Some ''5'', node_text := Some ''some text'',
     node_x := Some 30, node_y := Some 40,
     neighbors := Some [0], node_links := Some [0]\<rparr>"

definition node_c :: node where
  "node_c = blank_node\<lparr>node_id := ''c'', uuid := Some ''uc'', node_type := Some ''COVARIATE'',
     human_readable_id := Some ''5'', covariate_type := Some ''claim'',
     node_x := Some 120, node_y := Some 20,
     neighbors := Some [0], node_links := Some [1]\<rparr>"

definition node_d :: node where
  "node_d = blank_node\<lparr>node_id := ''d'', uuid := Some ''ud'', node_type := Some ''Document'',
     human_readable_id := Some ''0'', node_x := Some 340, node_y := Some 0,
     neighbors := Some [0], node_links := Some [2]\<rparr>"

definition heap0 :: heap where
  "heap0 =
     \<lparr>node_at = (\<lambda>r. if r = 0 then node_a else if r = 1 then node_b
                      else if r = 2 then node_c else node_d),
      link_at = (\<lambda>l. if l = 0
                      then \<lparr>source = EndNode 0, target = EndNode 1, link_type = None,
                            link_human_readable_id = Some ''7''\<rparr>
                      else if l = 1
                      then \<lparr>source = EndId ''a'', target = EndId ''c'', link_type = None,
                            link_human_readable_id = Some ''8''\<rparr>
                      else \<lparr>source = EndNode 0, target = EndId ''d'', link_type = None,
                            link_human_readable_id = None\<rparr>)\<rparr>"

text \<open>The same objects once they carry a degree: 3 for \<open>a\<close>, 1 for the others.\<close>

definition heap1 :: heap where
  "heap1 = heap0\<lparr>node_at :=
     (\<lambda>r. (node_at heap0 r)\<lparr>degree := Some (if r = 0 then 3 else 1)\<rparr>)\<rparr>"

definition data0 :: "nref CustomGraphData" where
  "data0 = \<lparr>nodes = [0, 1, 2, 3], links = [0, 1, 2]\<rparr>"

text \<open>The component on that dataset, documents hidden, nothing hovered or searched.\<close>

definition viewer0 :: viewer where
  "viewer0 = \<lparr>data = data0,
     includeDocuments = False, includeTextUnits = True, includeCommunities = False,
     includeCovariates = True,
     hasDocuments = True, hasTextUnits = True, hasCommunities = True, hasCovariates = True,
     highlightNodes = {}, highlightLinks = {}, hoverNode = None, showHighlight = True,
     apiSearchResults = None,
     graphData = data0, initialGraphData = data0,
     graphZoom = 1, workerRunning = False, visibleNodes = [], workers = [],
     animationFrames = []\<rparr>"

text \<open>A response of the remote search on that dataset: two entities (the second
  unknown), a relationship, a report, two sources (the second with a \<^verbatim>\<open>null\<close> text), a
  claim, and a value that is no array.\<close>

definition item5 :: item where
  "item5 = \<lparr>item_id = Some ''5'', item_text = TextUndefined\<rparr>"

definition response0 :: contextData where
  "response0 =
     [(''entities'', Some [item5, \<lparr>item_id = Some ''99'', item_text = TextUndefined\<rparr>]),
      (''relationships'', Some [\<lparr>item_id = Some ''7'', item_text = TextUndefined\<rparr>]),
      (''reports'', Some [\<lparr>item_id = Some ''ud'', item_text = TextUndefined\<rparr>]),
      (''sources'', Some [\<lparr>item_id = Some ''1'', item_text = TextString ''some text''\<rparr>,
                          \<lparr>item_id = Some ''2'', item_text = TextNoString\<rparr>]),
      (''claims'', Some [item5]),
      (''total'', None)]"

text \<open>A snapshot of 250 nodes, a later snapshot of three other nodes, and a dataset of
  1001 nodes.\<close>

definition old_snapshot :: "nref CustomGraphData" where
  "old_snapshot = \<lparr>nodes = [0..<250], links = []\<rparr>"

definition new_snapshot :: "nref CustomGraphData" where
  "new_snapshot = \<lparr>nodes = [1000..<1003], links = []\<rparr>"

definition big_data :: "nref CustomGraphData" where
  "big_data = \<lparr>nodes = [0..<1001], links = []\<rparr>"


section \<open>The dependency between text units and covariates\<close>

text \<open>
  Claim C3.  The dependency of the claims/covariates category on the text-units category
  is enforced by the toggle handlers themselves: unticking text units while covariates
  is ticked leaves both flags off, ticking covariates while text units is off leaves both
  flags on, and after either handler, from any flag state, covariates is on only if text
  units is on.  The other flags are not touched.
\<close>

theorem category_dependency_at_toggle:
  "(includeTextUnits v \<and> includeCovariates v \<longrightarrow>
      \<not> includeTextUnits (onChange TextUnits v) \<and> \<not> includeCovariates (onChange TextUnits v))
   \<and> (\<not> includeTextUnits v \<and> \<not> includeCovariates v \<longrightarrow>
      includeTextUnits (onChange Covariates v) \<and> includeCovariates (onChange Covariates v))
   \<and> (includeCovariates (onChange TextUnits v) \<longrightarrow> includeTextUnits (onChange TextUnits v))
   \<and> (includeCovariates (onChange Covariates v) \<longrightarrow> includeTextUnits (onChange Covariates v))
   \<and> includeDocuments (onChange TextUnits v) = includeDocuments v
   \<and> includeCommunities (onChange TextUnits v) = includeCommunities v
   \<and> includeDocuments (onChange Covariates v) = includeDocuments v
   \<and> includeCommunities (onChange Covariates v) = includeCommunities v"
  by (simp add: Let_def)

theorem category_dependency_at_toggle_witness:
  "includeTextUnits viewer0 \<and> includeCovariates viewer0
   \<and> \<not> includeTextUnits (onChange TextUnits viewer0)
   \<and> \<not> includeCovariates (onChange TextUnits viewer0)
   \<and> \<not> includeTextUnits (onChange TextUnits viewer0)
   \<and> \<not> includeCovariates (onChange TextUnits viewer0)
   \<and> includeTextUnits (onChange Covariates (onChange TextUnits viewer0))
   \<and> includeCovariates (onChange Covariates (onChange TextUnits viewer0))"
proof -
  have a: "includeTextUnits viewer0 \<and> includeCovariates viewer0"
    by (simp add: viewer0_def)
  note t1 = category_dependency_at_toggle [of viewer0]
  from a t1 have b: "\<not> includeTextUnits (onChange TextUnits viewer0)
      \<and> \<not> includeCovariates (onChange TextUnits viewer0)"
    by blast
  note t2 = category_dependency_at_toggle [of "onChange TextUnits viewer0"]
  from b t2 have "includeTextUnits (onChange Covariates (onChange TextUnits viewer0))
      \<and> includeCovariates (onChange Covariates (onChange TextUnits viewer0))"
    by blast
  with a b show ?thesis by blast
qed

section \<open>No dangling links after the category filter\<close>

text \<open>
  Claim C1.  For every combination of the four category flags and every dataset, each
  link of the filtered output has its source and its target among the filtered nodes
  (an endpoint is looked up by its node identifier, whether the link holds the node
  object or the identifier), and the filtered links are exactly the links of the dataset
  whose two endpoints survive the node filter.  The filtered nodes are the copies of the
  dataset's nodes that pass the \<^verbatim>\<open>switch\<close> on the lower-cased type.
\<close>

theorem filtered_links_no_dangling:
  "(\<forall>l \<in> set (links (filteredGraphData h v)).
       endpoint_id h (source (link_at h l)) \<in> node_id ` set (nodes (filteredGraphData h v))
     \<and> endpoint_id h (target (link_at h l)) \<in> node_id ` set (nodes (filteredGraphData h v)))
   \<and> links (filteredGraphData h v) =
       filter (\<lambda>l. endpoint_id h (source (link_at h l))
                      \<in> node_id ` set (nodes (filteredGraphData h v))
                 \<and> endpoint_id h (target (link_at h l))
                      \<in> node_id ` set (nodes (filteredGraphData h v)))
         (links (data v))
   \<and> nodes (filteredGraphData h v) = filter (keep_node v) (optimizedNodes h v)"
  by (simp add: filteredGraphData_def Let_def)

lemma optimizedNodes_viewer0:
  "optimizedNodes heap0 viewer0 =
     [node_a\<lparr>degree := Some 3\<rparr>, node_b\<lparr>degree := Some 1\<rparr>,
      node_c\<lparr>degree := Some 1\<rparr>, node_d\<lparr>degree := Some 1\<rparr>]"
  by (simp add: optimizedNodes_def viewer0_def data0_def heap0_def
        node_a_def node_b_def node_c_def node_d_def blank_node_def)

lemma keep_node_viewer0:
  "keep_node viewer0 (node_a\<lparr>degree := d\<rparr>)"
  "keep_node viewer0 (node_b\<lparr>degree := d\<rparr>)"
  "keep_node viewer0 (node_c\<lparr>degree := d\<rparr>)"
  "\<not> keep_node viewer0 (node_d\<lparr>degree := d\<rparr>)"
  by (simp_all add: keep_node_def toLowerCase_def js_lower_char_def viewer0_def
        node_a_def node_b_def node_c_def node_d_def blank_node_def)

lemma filteredGraphData_viewer0:
  "filteredGraphData heap0 viewer0 =
     \<lparr>nodes = [node_a\<lparr>degree := Some 3\<rparr>, node_b\<lparr>degree := Some 1\<rparr>,
               node_c\<lparr>degree := Some 1\<rparr>],
      links = [0, 1]\<rparr>"
proof -
  have "nodes (filteredGraphData heap0 viewer0) =
      [node_a\<lparr>degree := Some 3\<rparr>, node_b\<lparr>degree := Some 1\<rparr>, node_c\<lparr>degree := Some 1\<rparr>]"
    by (simp add: filteredGraphData_def Let_def optimizedNodes_viewer0 keep_node_viewer0)
  moreover have "links (filteredGraphData heap0 viewer0) = [0, 1]"
    apply (simp add: filteredGraphData_def Let_def optimizedNodes_viewer0 keep_node_viewer0)
    apply (simp add: viewer0_def data0_def heap0_def endpoint_id_def
        node_a_def node_b_def node_c_def node_d_def blank_node_def)
    done
  ultimately show ?thesis by simp
qed

text \<open>On the sample dataset with documents hidden, the link to the document is dropped;
  the resolved link from \<open>a\<close> to \<open>b\<close> stays, with both endpoints among the nodes.\<close>

theorem filtered_links_no_dangling_witness:
  "links (filteredGraphData heap0 viewer0) = [0, 1]
   \<and> endpoint_id heap0 (source (link_at heap0 0))
        \<in> node_id ` set (nodes (filteredGraphData heap0 viewer0))
   \<and> endpoint_id heap0 (target (link_at heap0 0))
        \<in> node_id ` set (nodes (filteredGraphData heap0 viewer0))"
proof -
  have l: "links (filteredGraphData heap0 viewer0) = [0, 1]"
    by (simp add: filteredGraphData_viewer0)
  then have "0 \<in> set (links (filteredGraphData heap0 viewer0))"
    by simp
  with filtered_links_no_dangling [of heap0 viewer0] l show ?thesis
    by blast
qed

section \<open>Visibility at low zoom\<close>

lemma gt2_iff: "gt2 d \<longleftrightarrow> (\<exists>k. d = Some k \<and> 2 < k)"
  by (cases d) (simp_all add: gt2_def)

text \<open>
  Claim C8.  Below zoom 0.5 a node is visible if and only if its degree is greater than
  2, and a link is visible only if one of its resolved endpoints has a degree greater
  than 2 (precisely: if and only if both endpoints are resolved and one of them has);
  from zoom 0.5 on every node and every link is visible.
\<close>

theorem low_zoom_visibility:
  "(graphZoom v < 0.5 \<longrightarrow> (nodeVisibility v n \<longleftrightarrow> (\<exists>k. degree n = Some k \<and> 2 < k)))
   \<and> (graphZoom v < 0.5 \<longrightarrow>
        (linkVisibility h v l \<longleftrightarrow>
           (\<exists>s t. source l = EndNode s \<and> target l = EndNode t
              \<and> ((\<exists>k. degree (node_at h s) = Some k \<and> 2 < k)
                 \<or> (\<exists>k. degree (node_at h t) = Some k \<and> 2 < k)))))
   \<and> (graphZoom v < 0.5 \<and> linkVisibility h v l \<longrightarrow>
        (\<exists>r k. (source l = EndNode r \<or> target l = EndNode r)
           \<and> degree (node_at h r) = Some k \<and> 2 < k))
   \<and> (0.5 \<le> graphZoom v \<longrightarrow> nodeVisibility v n \<and> linkVisibility h v l)"
proof -
  have n: "graphZoom v < 0.5 \<Longrightarrow> nodeVisibility v n \<longleftrightarrow> (\<exists>k. degree n = Some k \<and> 2 < k)"
    by (simp add: nodeVisibility_def gt2_iff)
  have l: "graphZoom v < 0.5 \<Longrightarrow>
        (linkVisibility h v l \<longleftrightarrow>
           (\<exists>s t. source l = EndNode s \<and> target l = EndNode t
              \<and> ((\<exists>k. degree (node_at h s) = Some k \<and> 2 < k)
                 \<or> (\<exists>k. degree (node_at h t) = Some k \<and> 2 < k))))"
    by (cases "source l"; cases "target l") (simp_all add: linkVisibility_def gt2_iff)
  have o: "graphZoom v < 0.5 \<Longrightarrow> linkVisibility h v l \<Longrightarrow>
        (\<exists>r k. (source l = EndNode r \<or> target l = EndNode r)
           \<and> degree (node_at h r) = Some k \<and> 2 < k)"
    using l by blast
  have h: "0.5 \<le> graphZoom v \<Longrightarrow> nodeVisibility v n \<and> linkVisibility h v l"
    by (simp add: nodeVisibility_def linkVisibility_def)
  from n l o h show ?thesis by blast
qed

text \<open>Zoomed out to 0.3, the copy of \<open>a\<close> (degree 3) is shown and the copy of \<open>b\<close>
  (degree 1) is hidden; the resolved link from \<open>a\<close> to \<open>b\<close> is shown, the link from \<open>a\<close>
  to the identifier \<open>d\<close> is hidden.  At zoom 1 the copy of \<open>b\<close> and that link are shown.\<close>

theorem low_zoom_visibility_witness:
  "graphZoom (viewer0\<lparr>graphZoom := 0.3\<rparr>) < 0.5
   \<and> nodeVisibility (viewer0\<lparr>graphZoom := 0.3\<rparr>) (node_a\<lparr>degree := Some 3\<rparr>)
   \<and> \<not> nodeVisibility (viewer0\<lparr>graphZoom := 0.3\<rparr>) (node_b\<lparr>degree := Some 1\<rparr>)
   \<and> linkVisibility heap1 (viewer0\<lparr>graphZoom := 0.3\<rparr>) (link_at heap1 0)
   \<and> \<not> linkVisibility heap1 (viewer0\<lparr>graphZoom := 0.3\<rparr>) (link_at heap1 2)
   \<and> 0.5 \<le> graphZoom viewer0
   \<and> nodeVisibility viewer0 (node_b\<lparr>degree := Some 1\<rparr>)
   \<and> linkVisibility heap1 viewer0 (link_at heap1 2)"
proof -
  let ?v = "viewer0\<lparr>graphZoom := 0.3\<rparr>"
  have z: "graphZoom ?v < 0.5"
    by simp
  have a: "\<exists>k. degree (node_a\<lparr>degree := Some 3\<rparr>) = Some k \<and> 2 < k"
    by simp
  have b: "\<not> (\<exists>k. degree (node_b\<lparr>degree := Some 1\<rparr>) = Some k \<and> 2 < k)"
    by simp
  have l0: "\<exists>s t. source (link_at heap1 0) = EndNode s \<and> target (link_at heap1 0) = EndNode t
      \<and> ((\<exists>k. degree (node_at heap1 s) = Some k \<and> 2 < k)
         \<or> (\<exists>k. degree (node_at heap1 t) = Some k \<and> 2 < k))"
    by (simp add: heap1_def heap0_def)
  have l2: "\<not> (\<exists>s t. source (link_at heap1 2) = EndNode s \<and> target (link_at heap1 2) = EndNode t
      \<and> ((\<exists>k. degree (node_at heap1 s) = Some k \<and> 2 < k)
         \<or> (\<exists>k. degree (node_at heap1 t) = Some k \<and> 2 < k)))"
    by (simp add: heap1_def heap0_def)
  have o: "0.5 \<le> graphZoom viewer0"
    by (simp add: viewer0_def)
  from z a low_zoom_visibility [of ?v "node_a\<lparr>degree := Some 3\<rparr>"]
  have 1: "nodeVisibility ?v (node_a\<lparr>degree := Some 3\<rparr>)"
    by blast
  from z b low_zoom_visibility [of ?v "node_b\<lparr>degree := Some 1\<rparr>"]
  have 2: "\<not> nodeVisibility ?v (node_b\<lparr>degree := Some 1\<rparr>)"
    by blast
  from z l0 low_zoom_visibility [of ?v _ heap1 "link_at heap1 0"]
  have 3: "linkVisibility heap1 ?v (link_at heap1 0)"
    by blast
  from z l2 low_zoom_visibility [of ?v _ heap1 "link_at heap1 2"]
  have 4: "\<not> linkVisibility heap1 ?v (link_at heap1 2)"
    by blast
  from o low_zoom_visibility [of viewer0 "node_b\<lparr>degree := Some 1\<rparr>" heap1 "link_at heap1 2"]
  have 5: "nodeVisibility viewer0 (node_b\<lparr>degree := Some 1\<rparr>)
      \<and> linkVisibility heap1 viewer0 (link_at heap1 2)"
    by blast
  from z o 1 2 3 4 5 show ?thesis by blast
qed

section \<open>Highlight sets on hover\<close>

lemma fold_insert_set: "fold insert xs A = set xs \<union> A"
  by (induction xs arbitrary: A) auto

text \<open>
  Claim C9.  Every hover event replaces the highlight sets wholesale, whatever they held
  before: hovering a node gives exactly that node and its neighbours as highlighted
  nodes and exactly its incident links as highlighted links; hovering a link gives that
  link and its resolved endpoints; hovering nothing empties both sets.
\<close>

theorem hover_replaces_highlight:
  "highlightNodes (handleNodeHover h (Some n) v)
     = insert n (case neighbors (node_at h n) of None \<Rightarrow> {} | Some ns \<Rightarrow> set ns)
   \<and> highlightLinks (handleNodeHover h (Some n) v)
     = (case node_links (node_at h n) of None \<Rightarrow> {} | Some ls \<Rightarrow> set ls)
   \<and> highlightNodes (handleNodeHover h None v) = {}
   \<and> highlightLinks (handleNodeHover h None v) = {}
   \<and> highlightLinks (handleLinkHover h (Some l) v) = {l}
   \<and> highlightNodes (handleLinkHover h (Some l) v)
     = {r. source (link_at h l) = EndNode r \<or> target (link_at h l) = EndNode r}
   \<and> highlightNodes (handleLinkHover h None v) = {}
   \<and> highlightLinks (handleLinkHover h None v) = {}"
proof -
  have a: "highlightNodes (handleNodeHover h (Some n) v)
     = insert n (case neighbors (node_at h n) of None \<Rightarrow> {} | Some ns \<Rightarrow> set ns)"
    by (cases "neighbors (node_at h n)")
       (simp_all add: handleNodeHover_def add_all_def fold_insert_set)
  have b: "highlightLinks (handleNodeHover h (Some n) v)
     = (case node_links (node_at h n) of None \<Rightarrow> {} | Some ls \<Rightarrow> set ls)"
    by (cases "node_links (node_at h n)")
       (simp_all add: handleNodeHover_def add_all_def fold_insert_set)
  have c: "highlightNodes (handleNodeHover h None v) = {}
      \<and> highlightLinks (handleNodeHover h None v) = {}"
    by (simp add: handleNodeHover_def)
  have d: "highlightLinks (handleLinkHover h (Some l) v) = {l}"
    by (simp add: handleLinkHover_def)
  have e: "highlightNodes (handleLinkHover h (Some l) v)
     = {r. source (link_at h l) = EndNode r \<or> target (link_at h l) = EndNode r}"
    by (cases "source (link_at h l)"; cases "target (link_at h l)")
       (auto simp add: handleLinkHover_def add_resolved_def)
  have f: "highlightNodes (handleLinkHover h None v) = {}
      \<and> highlightLinks (handleLinkHover h None v) = {}"
    by (simp add: handleLinkHover_def)
  from a b c d e f show ?thesis by blast
qed

section \<open>Disabled category checkboxes\<close>

text \<open>
  Claim C10.  While a remote search result is stored (\<^verbatim>\<open>apiSearchResults\<close> is not
  \<^verbatim>\<open>null\<close>) each of the four category checkboxes is disabled, so that a click on it
  changes nothing; a checkbox whose category is absent from the dataset (its
  \<^verbatim>\<open>has\<close> flag is false) is disabled in the same way.
\<close>

theorem checkboxes_disabled:
  "(apiSearchResults v \<noteq> None \<longrightarrow> disabled c v \<and> click c v = v)
   \<and> (\<not> has_category c v \<longrightarrow> disabled c v \<and> click c v = v)"
  by (cases c) (simp_all add: click_def)

text \<open>With a stored search result a click on the text-units checkbox changes nothing;
  without covariates in the dataset, neither does a click on the covariates checkbox.\<close>

theorem checkboxes_disabled_witness:
  "apiSearchResults (viewer0\<lparr>apiSearchResults := Some \<lparr>context_data = None\<rparr>\<rparr>) \<noteq> None
   \<and> click TextUnits (viewer0\<lparr>apiSearchResults := Some \<lparr>context_data = None\<rparr>\<rparr>)
       = viewer0\<lparr>apiSearchResults := Some \<lparr>context_data = None\<rparr>\<rparr>
   \<and> \<not> has_category Covariates (viewer0\<lparr>hasCovariates := False\<rparr>)
   \<and> click Covariates (viewer0\<lparr>hasCovariates := False\<rparr>) = viewer0\<lparr>hasCovariates := False\<rparr>
   \<and> click TextUnits viewer0 \<noteq> viewer0"
proof -
  have a: "apiSearchResults (viewer0\<lparr>apiSearchResults := Some \<lparr>context_data = None\<rparr>\<rparr>) \<noteq> None"
    by simp
  have b: "\<not> has_category Covariates (viewer0\<lparr>hasCovariates := False\<rparr>)"
    by simp
  have c: "click TextUnits viewer0 \<noteq> viewer0"
    by (simp add: click_def viewer0_def)
  from a checkboxes_disabled
    [of "viewer0\<lparr>apiSearchResults := Some \<lparr>context_data = None\<rparr>\<rparr>" TextUnits]
  have 1: "click TextUnits (viewer0\<lparr>apiSearchResults := Some \<lparr>context_data = None\<rparr>\<rparr>)
       = viewer0\<lparr>apiSearchResults := Some \<lparr>context_data = None\<rparr>\<rparr>"
    by blast
  from b checkboxes_disabled [of "viewer0\<lparr>hasCovariates := False\<rparr>" Covariates]
  have 2: "click Covariates (viewer0\<lparr>hasCovariates := False\<rparr>) = viewer0\<lparr>hasCovariates := False\<rparr>"
    by blast
  from a b c 1 2 show ?thesis by blast
qed

section \<open>Hover events reach the handler one by one\<close>

lemma hover_events_nodes:
  "showHighlight v \<Longrightarrow> map hoverNode (hover_events h evs v) = map snd evs"
proof (induction evs arbitrary: v)
  case Nil
  then show ?case by simp
next
  case (Cons e evs)
  obtain t nd where e: "e = (t, nd)" by (cases e)
  have "showHighlight (handleNodeHover h nd v)"
    using Cons.prems by (simp add: handleNodeHover_def Let_def)
  moreover have "hoverNode (handleNodeHover h nd v) = nd"
    by (simp add: handleNodeHover_def Let_def)
  ultimately show ?case using Cons by (simp add: e onNodeHover_def)
qed

text \<open>
  Claim C6.  The claim is that ten hover events within 50 ms yield one recomputation of
  the highlight sets, for the last event.  The surface is given \<^verbatim>\<open>handleNodeHover\<close>
  itself (the debounced wrapper \<^verbatim>\<open>debouncedHandleNodeHover\<close> is defined and passed
  nowhere), so that ten hover events at 0, 5, ..., 45 ms recompute the highlight sets
  ten times, once for each event, in order.
\<close>

theorem hover_not_coalesced:
  "length
     (hover_events h
        [(0, Some 0), (5, Some 1), (10, Some 2), (15, Some 3), (20, Some 0),
         (25, Some 1), (30, Some 2), (35, Some 3), (40, Some 0), (45, Some 1)] viewer0)
   = 10
   \<and> map hoverNode
     (hover_events h
        [(0, Some 0), (5, Some 1), (10, Some 2), (15, Some 3), (20, Some 0),
         (25, Some 1), (30, Some 2), (35, Some 3), (40, Some 0), (45, Some 1)] viewer0)
   = [Some 0, Some 1, Some 2, Some 3, Some 0, Some 1, Some 2, Some 3, Some 0, Some 1]"
proof -
  have s: "showHighlight viewer0"
    by (simp add: viewer0_def)
  have m: "map hoverNode
     (hover_events h
        [(0, Some 0), (5, Some 1), (10, Some 2), (15, Some 3), (20, Some 0),
         (25, Some 1), (30, Some 2), (35, Some 3), (40, Some 0), (45, Some 1)] viewer0)
   = [Some 0, Some 1, Some 2, Some 3, Some 0, Some 1, Some 2, Some 3, Some 0, Some 1]"
    using s by (simp add: hover_events_nodes del: hover_events.simps)
  from arg_cong [OF m, of length] have "length
     (hover_events h
        [(0, Some 0), (5, Some 1), (10, Some 2), (15, Some 3), (20, Some 0),
         (25, Some 1), (30, Some 2), (35, Some 3), (40, Some 0), (45, Some 1)] viewer0)
   = 10"
    by (simp del: hover_events.simps)
  with m show ?thesis by blast
qed

section \<open>The external-result mapper against its matching table\<close>

lemma find_by_id_Some: "find_by_id p (Some s) xs = Inr (find (p s) xs)"
  by (cases xs) simp_all

lemma push_found_Inr: "push_found (Inr r) acc = Inr (acc @ opt_list r)"
  by (cases r) (simp_all add: push_found_def opt_list_def)

lemma map_filter_opt_list: "List.map_filter f xs = concat (map (\<lambda>x. opt_list (f x)) xs)"
  by (induction xs) (simp_all add: List.map_filter_simps opt_list_def split: option.splits)

lemma map_filter_Pair:
  "List.map_filter (\<lambda>(key, it). f key it) (map (Pair k) its) = List.map_filter (f k) its"
  by (simp add: map_filter_opt_list comp_def)

lemma array_items_Cons_None: "array_items ((key, None) # es) = array_items es"
  by (simp add: array_items_def)

lemma array_items_Cons_Some:
  "array_items ((key, Some its) # es) = map (Pair key) its @ array_items es"
  by (simp add: array_items_def)

text \<open>One item: the chain on the key pushes what the table resolves the item to.\<close>

lemma process_item_spec:
  assumes "id_keyed key \<longrightarrow> item_id it \<noteq> None"
  shows "process_item h b key it (ns, ls) =
     Inr (ns @ opt_list (spec_resolve_node h (nodes b) key it),
          ls @ opt_list (spec_resolve_link h (links b) key it))"
proof (cases "id_keyed key")
  case True
  with assms obtain s where s: "item_id it = Some s" by auto
  from True show ?thesis
    by (auto simp add: id_keyed_def process_item_def s find_by_id_Some push_found_Inr
          spec_resolve_node_def spec_resolve_link_def opt_list_def)
next
  case False
  then show ?thesis
    by (simp add: id_keyed_def process_item_def push_found_Inr
          spec_resolve_node_def spec_resolve_link_def opt_list_def)
qed

lemma forEach_items_spec:
  "list_all (\<lambda>it. id_keyed key \<longrightarrow> item_id it \<noteq> None) its \<Longrightarrow>
   forEach_items h b key its (ns, ls) =
     Inr (ns @ List.map_filter (spec_resolve_node h (nodes b) key) its,
          ls @ List.map_filter (spec_resolve_link h (links b) key) its)"
proof (induction its arbitrary: ns ls)
  case Nil
  then show ?case by (simp add: List.map_filter_simps)
next
  case (Cons it its)
  then show ?case
    by (simp add: process_item_spec map_filter_opt_list)
qed

lemma forEach_entries_spec:
  "items_have_ids cd \<Longrightarrow>
   forEach_entries h b cd (ns, ls) =
     Inr (ns @ List.map_filter (\<lambda>(key, it). spec_resolve_node h (nodes b) key it) (array_items cd),
          ls @ List.map_filter (\<lambda>(key, it). spec_resolve_link h (links b) key it) (array_items cd))"
proof (induction cd arbitrary: ns ls)
  case Nil
  then show ?case by (simp add: array_items_def List.map_filter_simps)
next
  case (Cons e es)
  obtain key a where e: "e = (key, a)" by (cases e)
  show ?case
  proof (cases a)
    case None
    with Cons e show ?thesis
      by (simp add: items_have_ids_def array_items_Cons_None)
  next
    case (Some its)
    from Cons.prems have its: "list_all (\<lambda>it. id_keyed key \<longrightarrow> item_id it \<noteq> None) its"
      and es: "items_have_ids es"
      by (auto simp add: items_have_ids_def e Some array_items_Cons_Some list_all_iff)
    show ?thesis
      by (simp add: e Some forEach_items_spec [OF its] Cons.IH [OF es]
            array_items_Cons_Some map_filter_opt_list comp_def)
  qed
qed

lemma updateGraphData_spec:
  "items_have_ids cd \<Longrightarrow>
   updateGraphData h (Some cd) v = Inr (v\<lparr>graphData := spec_matched h (initialGraphData v) cd\<rparr>)"
  by (simp add: updateGraphData_def forEach_entries_spec spec_matched_def)

lemma items_have_ids_entities5: "items_have_ids [(''entities'', Some [item5])]"
  by (simp add: items_have_ids_def array_items_def item5_def)

lemma spec_matched_entities5:
  "spec_matched h b [(''entities'', Some [item5])] =
     \<lparr>nodes = opt_list (find (\<lambda>n. human_readable_id (node_at h n) = Some ''5''
                  \<and> \<not> truthy (covariate_type (node_at h n))) (nodes b)), links = []\<rparr>"
  by (simp add: spec_matched_def array_items_def List.map_filter_simps spec_resolve_node_def
        spec_resolve_link_def item5_def opt_list_def split: option.splits)

lemma heap0_fields:
  "human_readable_id (node_at heap0 0) = Some ''5''"
  "human_readable_id (node_at heap0 (Suc 0)) = Some ''5''"
  "human_readable_id (node_at heap0 2) = Some ''5''"
  "human_readable_id (node_at heap0 3) = Some ''0''"
  "covariate_type (node_at heap0 0) = None"
  "covariate_type (node_at heap0 (Suc 0)) = None"
  "covariate_type (node_at heap0 2) = Some ''claim''"
  "covariate_type (node_at heap0 3) = None"
  "uuid (node_at heap0 0) = Some ''ua''"
  "uuid (node_at heap0 (Suc 0)) = Some ''ub''"
  "uuid (node_at heap0 2) = Some ''uc''"
  "uuid (node_at heap0 3) = Some ''ud''"
  "node_text (node_at heap0 0) = None"
  "node_text (node_at heap0 (Suc 0)) = Some ''some text''"
  "link_human_readable_id (link_at heap0 0) = Some ''7''"
  by (simp_all add: heap0_def node_a_def node_b_def node_c_def node_d_def blank_node_def)

lemma items_have_ids_response0: "items_have_ids response0"
  by (simp add: items_have_ids_def response0_def array_items_def item5_def)

lemma spec_matched_response0:
  "spec_matched heap0 data0 response0 = \<lparr>nodes = [0, 3, 1, 2], links = [0]\<rparr>"
  by (simp add: spec_matched_def response0_def array_items_def item5_def
        List.map_filter_simps spec_resolve_node_def spec_resolve_link_def
        data0_def heap0_fields truthy_def text_equals_def)

text \<open>What the function stores.  On the sample dataset the sample response puts into
  \<^verbatim>\<open>graphData\<close> the person, the document (by its uuid), the text unit (by its text) and
  the claim, and the first link; the unknown entity and the source with a \<^verbatim>\<open>null\<close> text
  are left out.\<close>

lemma updateGraphData_response0:
  "updateGraphData heap0 (Some response0) viewer0
     = Inr (viewer0\<lparr>graphData := \<lparr>nodes = [0, 3, 1, 2], links = [0]\<rparr>\<rparr>)"
proof -
  have "initialGraphData viewer0 = data0"
    by (simp add: viewer0_def)
  with updateGraphData_spec [OF items_have_ids_response0, of heap0 viewer0]
  show ?thesis
    by (simp add: spec_matched_response0)
qed

text \<open>The guard \<^verbatim>\<open>if (!contextData) return\<close> leaves the component as it is.  An item
  without an \<^verbatim>\<open>id\<close> under an id-matched key ends the function with the exception,
  before \<^verbatim>\<open>setGraphData\<close>: what the items before it matched is lost with it.\<close>

lemma updateGraphData_no_context: "updateGraphData h None v = Inr v"
  by (simp add: updateGraphData_def)

lemma updateGraphData_item_without_id:
  "updateGraphData heap0
     (Some [(''entities'', Some [item5, \<lparr>item_id = None, item_text = TextUndefined\<rparr>])]) viewer0
   = Inl TypeError"
  by (simp add: updateGraphData_def process_item_def push_found_def viewer0_def data0_def
        item5_def heap0_fields truthy_def)

text \<open>The data handed to the render surfaces is built from the \<^verbatim>\<open>data\<close> prop and the four
  flags; \<^verbatim>\<open>updateGraphData\<close> writes the state \<^verbatim>\<open>graphData\<close> only, which that data does not
  read.\<close>

lemma keep_node_graphData_at: "keep_node (v\<lparr>graphData := g\<rparr>) n = keep_node v n"
  by (cases "node_type n") (simp_all add: keep_node_def)

lemma keep_node_graphData: "keep_node (v\<lparr>graphData := g\<rparr>) = keep_node v"
  by (rule ext) (rule keep_node_graphData_at)

lemma optimizedNodes_graphData: "optimizedNodes h (v\<lparr>graphData := g\<rparr>) = optimizedNodes h v"
  by (simp add: optimizedNodes_def)

lemma updateGraphData_keeps_filteredGraphData:
  assumes "updateGraphData h cd v = Inr v'"
  shows "filteredGraphData h v' = filteredGraphData h v"
proof (cases cd)
  case None
  with assms show ?thesis by (simp add: updateGraphData_def)
next
  case (Some c)
  with assms obtain g where "v' = v\<lparr>graphData := g\<rparr>"
    by (auto simp add: updateGraphData_def split: sum.splits prod.splits)
  then show ?thesis
    by (simp add: filteredGraphData_def keep_node_graphData optimizedNodes_graphData)
qed

text \<open>
  Claim C2.  The claim is that for every response the mapper resolves each item by the
  rule of its key, leaves unmatched items out silently, and replaces the displayed
  snapshot with exactly the matched nodes and links.  \<^verbatim>\<open>updateGraphData\<close> does resolve
  the items against \<^verbatim>\<open>initialGraphData\<close> and stores the matches with \<^verbatim>\<open>setGraphData\<close>
  (its comment: to trigger a re-render), but no render surface reads \<^verbatim>\<open>graphData\<close>: both
  are given \<^verbatim>\<open>filteredGraphData\<close>.  On the sample dataset the response
  \<^verbatim>\<open>entities: [{id: "5"}]\<close> stores the person \<open>a\<close> and no link in \<^verbatim>\<open>graphData\<close>, and the
  data on display stays as it was: the nodes \<open>a\<close>, \<open>b\<close>, \<open>c\<close> and two links.
\<close>

theorem mapper_result_not_displayed:
  "updateGraphData heap0
     (Some [(''entities'', Some [\<lparr>item_id = Some ''5'', item_text = TextUndefined\<rparr>])]) viewer0
     = Inr (viewer0\<lparr>graphData := \<lparr>nodes = [0], links = []\<rparr>\<rparr>)
   \<and> filteredGraphData heap0 (viewer0\<lparr>graphData := \<lparr>nodes = [0], links = []\<rparr>\<rparr>)
     = filteredGraphData heap0 viewer0
   \<and> map node_id (nodes (filteredGraphData heap0 viewer0)) = [''a'', ''b'', ''c'']
   \<and> links (filteredGraphData heap0 viewer0) = [0, 1]"
proof -
  have i: "initialGraphData viewer0 = data0"
    by (simp add: viewer0_def)
  have "spec_matched heap0 data0 [(''entities'', Some [item5])] = \<lparr>nodes = [0], links = []\<rparr>"
    by (simp add: spec_matched_entities5 data0_def heap0_fields truthy_def opt_list_def)
  with updateGraphData_spec [OF items_have_ids_entities5, of heap0 viewer0] i
  have u: "updateGraphData heap0 (Some [(''entities'', Some [item5])]) viewer0
     = Inr (viewer0\<lparr>graphData := \<lparr>nodes = [0], links = []\<rparr>\<rparr>)"
    by simp
  from updateGraphData_keeps_filteredGraphData [OF u]
  have k: "filteredGraphData heap0 (viewer0\<lparr>graphData := \<lparr>nodes = [0], links = []\<rparr>\<rparr>)
     = filteredGraphData heap0 viewer0" .
  have n: "map node_id (nodes (filteredGraphData heap0 viewer0)) = [''a'', ''b'', ''c'']"
    by (simp add: filteredGraphData_viewer0 node_a_def node_b_def node_c_def blank_node_def)
  have l: "links (filteredGraphData heap0 viewer0) = [0, 1]"
    by (simp add: filteredGraphData_viewer0)
  from u k n l show ?thesis unfolding item5_def by blast
qed

section \<open>Clusters are the grid cells\<close>

lemma cell_snoc: "cell key (xs @ [x]) k = cell key xs k @ (if key x = k then [x] else [])"
  by (simp add: cell_def)

lemma cell_keys_snoc:
  "cell_keys key (xs @ [x]) =
     (if key x \<in> key ` set xs then cell_keys key xs else cell_keys key xs @ [key x])"
  by (simp add: cell_keys_def)

lemma cell_keys_distinct: "distinct (cell_keys key xs)"
  by (simp add: cell_keys_def)

lemma cell_keys_set: "set (cell_keys key xs) = key ` set xs"
  by (simp add: cell_keys_def)

lemma cell_empty: "k \<notin> key ` set xs \<Longrightarrow> cell key xs k = []"
  by (auto simp add: cell_def filter_empty_conv)

lemma cell_nonempty: "k \<in> key ` set xs \<Longrightarrow> cell key xs k \<noteq> []"
  by (auto simp add: cell_def filter_empty_conv)

text \<open>A push into the \<^verbatim>\<open>clusters\<close> object, when the object holds one entry for each key
  of \<open>ks\<close>: a new key is appended, an old key gets the node at the end of its array.\<close>

lemma push_cluster_new:
  "k \<notin> set ks \<Longrightarrow>
   push_cluster k x (map (\<lambda>k'. (k', f k')) ks) = map (\<lambda>k'. (k', f k')) ks @ [(k, [x])]"
  by (induction ks) auto

lemma push_cluster_old:
  "distinct ks \<Longrightarrow> k \<in> set ks \<Longrightarrow>
   push_cluster k x (map (\<lambda>k'. (k', f k')) ks)
     = map (\<lambda>k'. (k', f k' @ (if k = k' then [x] else []))) ks"
proof (induction ks)
  case Nil
  then show ?case by simp
next
  case (Cons a ks)
  show ?case
  proof (cases "k = a")
    case True
    with Cons.prems have "k \<notin> set ks" by simp
    then have "map (\<lambda>k'. (k', f k' @ (if k = k' then [x] else []))) ks
        = map (\<lambda>k'. (k', f k')) ks"
      by (induction ks) auto
    with True show ?thesis by simp
  next
    case False
    with Cons show ?thesis by simp
  qed
qed

lemma group_nodes_snoc:
  "group_nodes key (xs @ [x]) = push_cluster (key x) x (group_nodes key xs)"
  by (simp add: group_nodes_def)

text \<open>After the loop the object holds, in the order of first occurrence, one entry for
  each cell key, with the members of the cell in input order.\<close>

lemma group_nodes_cells:
  "group_nodes key ns = map (\<lambda>k. (k, cell key ns k)) (cell_keys key ns)"
proof (induction ns rule: rev_induct)
  case Nil
  then show ?case by (simp add: group_nodes_def cell_keys_def)
next
  case (snoc x xs)
  show ?case
  proof (cases "key x \<in> key ` set xs")
    case True
    then have "key x \<in> set (cell_keys key xs)" by (simp add: cell_keys_set)
    then have "push_cluster (key x) x (map (\<lambda>k. (k, cell key xs k)) (cell_keys key xs))
        = map (\<lambda>k. (k, cell key xs k @ (if key x = k then [x] else []))) (cell_keys key xs)"
      by (rule push_cluster_old [OF cell_keys_distinct])
    with True snoc show ?thesis
      by (simp add: group_nodes_snoc cell_keys_snoc cell_snoc)
  next
    case False
    then have n: "key x \<notin> set (cell_keys key xs)" by (simp add: cell_keys_set)
    have "map (\<lambda>k. (k, cell key (xs @ [x]) k)) (cell_keys key xs)
        = map (\<lambda>k. (k, cell key xs k)) (cell_keys key xs)"
      using n by (auto simp add: cell_snoc)
    moreover have "cell key (xs @ [x]) (key x) = [x]"
      using False by (simp add: cell_snoc cell_empty)
    ultimately show ?thesis
      using False snoc n by (simp add: group_nodes_snoc cell_keys_snoc push_cluster_new)
  qed
qed

lemma make_cluster_many:
  "\<exists>cl. make_cluster h c = ClusterNode cl
      \<and> cluster_id cl = ''cluster-'' @ join ''-'' (map (\<lambda>n. node_id (node_at h n)) c)
      \<and> cluster_nodes cl = c" if "2 \<le> length c"
proof (cases c)
  case Nil
  with that show ?thesis by simp
next
  case (Cons a l)
  with that show ?thesis by (cases l) (simp_all add: make_cluster_def)
qed

lemma clusterKey_heap0:
  "clusterKey heap0 100 0 = (RInt 0, RInt 0)"
  "clusterKey heap0 100 (Suc 0) = (RInt 0, RInt 0)"
  "clusterKey heap0 100 2 = (RInt 1, RInt 0)"
  "clusterKey heap0 100 3 = (RInt 3, RInt 0)"
  by (simp_all add: clusterKey_def heap0_def node_a_def node_b_def node_c_def node_d_def
        blank_node_def round_div_def floor_eq_iff)

lemma node_id_heap0:
  "node_id (node_at heap0 0) = ''a''"
  "node_id (node_at heap0 (Suc 0)) = ''b''"
  "node_id (node_at heap0 2) = ''c''"
  "node_id (node_at heap0 3) = ''d''"
  by (simp_all add: heap0_def node_a_def node_b_def node_c_def node_d_def blank_node_def)

text \<open>
  Claim C7, as stated: the identifier of a cluster is derived from the sorted member
  ids, and so does not depend on the order in which the members are enumerated.  The
  nodes \<open>a\<close> and \<open>b\<close> of the sample dataset share a cell; listed as \<open>a, b\<close> their cluster
  is \<^verbatim>\<open>cluster-a-b\<close>, listed as \<open>b, a\<close> it is \<^verbatim>\<open>cluster-b-a\<close>.
\<close>

theorem cluster_id_order_counterexample:
  "map (lod_id heap0) (clusterNodes heap0 [0, 1] 100) = [''cluster-a-b'']
   \<and> map (lod_id heap0) (clusterNodes heap0 [1, 0] 100) = [''cluster-b-a'']"
  by (simp add: clusterNodes_def group_nodes_def clusterKey_heap0 make_cluster_def lod_id_def
        node_id_heap0)

text \<open>
  Claim C7, amended.  Clustering is a function of the node list, in its order, and of the
  threshold: the output has one element for each grid cell that holds a node, in the
  order in which the cells are first met; a cell with one member yields that node
  unchanged; a cell with two or more members yields one cluster object, whose members
  are the nodes of the cell in input order and whose id is \<^verbatim>\<open>cluster-\<close> followed by the
  member ids in that order, joined by \<^verbatim>\<open>-\<close> (the ids are not sorted).
\<close>

theorem clusterNodes_by_cells:
  "clusterNodes h ns threshold =
     map (\<lambda>k. make_cluster h (cell (clusterKey h threshold) ns k))
       (cell_keys (clusterKey h threshold) ns)
   \<and> distinct (cell_keys (clusterKey h threshold) ns)
   \<and> set (cell_keys (clusterKey h threshold) ns) = clusterKey h threshold ` set ns
   \<and> (\<forall>k \<in> set (cell_keys (clusterKey h threshold) ns).
        cell (clusterKey h threshold) ns k \<noteq> []
        \<and> (\<forall>n. cell (clusterKey h threshold) ns k = [n] \<longrightarrow>
              make_cluster h (cell (clusterKey h threshold) ns k) = Plain n)
        \<and> (2 \<le> length (cell (clusterKey h threshold) ns k) \<longrightarrow>
              (\<exists>cl. make_cluster h (cell (clusterKey h threshold) ns k) = ClusterNode cl
                 \<and> cluster_id cl =
                     ''cluster-'' @
                       join ''-'' (map (\<lambda>n. node_id (node_at h n))
                                     (cell (clusterKey h threshold) ns k))
                 \<and> cluster_nodes cl = cell (clusterKey h threshold) ns k)))"
proof -
  let ?key = "clusterKey h threshold"
  have a: "clusterNodes h ns threshold =
     map (\<lambda>k. make_cluster h (cell ?key ns k)) (cell_keys ?key ns)"
    by (simp add: clusterNodes_def group_nodes_cells comp_def)
  have b: "cell ?key ns k \<noteq> []" if "k \<in> set (cell_keys ?key ns)" for k
    using that by (simp add: cell_keys_set cell_nonempty)
  have c: "make_cluster h (cell ?key ns k) = Plain n" if "cell ?key ns k = [n]" for k n
    using that by (simp add: make_cluster_def)
  from a b c cell_keys_distinct [of ?key ns] cell_keys_set [of ?key ns]
    make_cluster_many [of _ h]
  show ?thesis by blast
qed

lemma cell_keys_data0:
  "cell_keys (clusterKey heap0 100) [0, 1, 2, 3] = [(RInt 0, RInt 0), (RInt 1, RInt 0), (RInt 3, RInt 0)]"
  by (simp add: cell_keys_def clusterKey_heap0)

lemma cell_data0:
  "cell (clusterKey heap0 100) [0, 1, 2, 3] (RInt 0, RInt 0) = [0, 1]"
  "cell (clusterKey heap0 100) [0, 1, 2, 3] (RInt 1, RInt 0) = [2]"
  "cell (clusterKey heap0 100) [0, 1, 2, 3] (RInt 3, RInt 0) = [3]"
  by (simp_all add: cell_def clusterKey_heap0)

text \<open>The sample dataset at threshold 100: \<open>a\<close> and \<open>b\<close> share the cell (0, 0) and become
  the cluster \<^verbatim>\<open>cluster-a-b\<close>; \<open>c\<close> and \<open>d\<close> are alone in their cells and stay.\<close>

theorem clusterNodes_by_cells_witness:
  "(RInt 0, RInt 0) \<in> set (cell_keys (clusterKey heap0 100) [0, 1, 2, 3])
   \<and> 2 \<le> length (cell (clusterKey heap0 100) [0, 1, 2, 3] (RInt 0, RInt 0))
   \<and> (\<exists>cl. make_cluster heap0 (cell (clusterKey heap0 100) [0, 1, 2, 3] (RInt 0, RInt 0))
             = ClusterNode cl
          \<and> cluster_id cl = ''cluster-a-b'' \<and> cluster_nodes cl = [0, 1])
   \<and> (RInt 1, RInt 0) \<in> set (cell_keys (clusterKey heap0 100) [0, 1, 2, 3])
   \<and> make_cluster heap0 (cell (clusterKey heap0 100) [0, 1, 2, 3] (RInt 1, RInt 0)) = Plain 2
   \<and> map (lod_id heap0) (clusterNodes heap0 [0, 1, 2, 3] 100) = [''cluster-a-b'', ''c'', ''d'']"
proof -
  note t = clusterNodes_by_cells [of heap0 "[0, 1, 2, 3]" 100]
  have k0: "(RInt 0, RInt 0) \<in> set (cell_keys (clusterKey heap0 100) [0, 1, 2, 3])"
    and k1: "(RInt 1, RInt 0) \<in> set (cell_keys (clusterKey heap0 100) [0, 1, 2, 3])"
    unfolding cell_keys_data0 by simp_all
  have l0: "2 \<le> length (cell (clusterKey heap0 100) [0, 1, 2, 3] (RInt 0, RInt 0))"
    unfolding cell_data0 by simp
  from t k0 l0 have "\<exists>cl. make_cluster heap0
        (cell (clusterKey heap0 100) [0, 1, 2, 3] (RInt 0, RInt 0)) = ClusterNode cl
      \<and> cluster_id cl =
          ''cluster-'' @
            join ''-'' (map (\<lambda>n. node_id (node_at heap0 n))
                          (cell (clusterKey heap0 100) [0, 1, 2, 3] (RInt 0, RInt 0)))
      \<and> cluster_nodes cl = cell (clusterKey heap0 100) [0, 1, 2, 3] (RInt 0, RInt 0)"
    by blast
  then have 1: "\<exists>cl. make_cluster heap0
        (cell (clusterKey heap0 100) [0, 1, 2, 3] (RInt 0, RInt 0)) = ClusterNode cl
      \<and> cluster_id cl = ''cluster-a-b'' \<and> cluster_nodes cl = [0, 1]"
    unfolding cell_data0 by (simp add: node_id_heap0)
  from t k1 cell_data0(2)
  have 2: "make_cluster heap0 (cell (clusterKey heap0 100) [0, 1, 2, 3] (RInt 1, RInt 0)) = Plain 2"
    by blast
  from t have "clusterNodes heap0 [0, 1, 2, 3] 100 =
     map (\<lambda>k. make_cluster heap0 (cell (clusterKey heap0 100) [0, 1, 2, 3] k))
       (cell_keys (clusterKey heap0 100) [0, 1, 2, 3])"
    by blast
  then have 3: "map (lod_id heap0) (clusterNodes heap0 [0, 1, 2, 3] 100)
      = [''cluster-a-b'', ''c'', ''d'']"
    unfolding cell_keys_data0 list.map cell_data0
    by (simp add: make_cluster_def lod_id_def node_id_heap0)
  from k0 l0 1 k1 2 3 show ?thesis by blast
qed

section \<open>A new snapshot during the progressive reveal\<close>

lemma reveal_after_first_frame:
  "reveal_run [NewSnapshot old_snapshot, Frame] viewer0 =
     viewer0\<lparr>data := old_snapshot, visibleNodes := [0..<100],
             animationFrames := [([0..<250], 100)]\<rparr>"
  by (simp add: reveal_run_def reveal_effect_def animation_frame_def addNodes_def chunkSize_def
        old_snapshot_def viewer0_def)

lemma reveal_at_new_snapshot:
  "reveal_run [NewSnapshot old_snapshot, Frame, NewSnapshot new_snapshot] viewer0 =
     viewer0\<lparr>data := new_snapshot, visibleNodes := [],
             animationFrames := [([0..<250], 100), ([1000..<1003], 0)]\<rparr>"
proof -
  have "reveal_run [NewSnapshot old_snapshot, Frame, NewSnapshot new_snapshot] viewer0
     = reveal_step (NewSnapshot new_snapshot)
         (reveal_run [NewSnapshot old_snapshot, Frame] viewer0)"
    by (simp add: reveal_run_def)
  then show ?thesis
    by (simp add: reveal_after_first_frame reveal_effect_def new_snapshot_def)
qed

text \<open>
  Claim C4.  The claim is that the steps still scheduled for the previous snapshot do
  nothing once a new snapshot has arrived, so that the visible list ends as the new
  snapshot's node list.  The effect returns no cleanup and never calls
  \<^verbatim>\<open>cancelAnimationFrame\<close>, so the old closure keeps running: with a snapshot of 250
  nodes, a snapshot of three other nodes arriving after the first frame (100 nodes
  admitted), the visible list ends, with no callback left, as nodes 100 to 199 of the
  old snapshot, the three new nodes, and nodes 200 to 249 of the old snapshot.
\<close>

theorem reveal_mixes_old_and_new:
  "visibleNodes
     (reveal_run [NewSnapshot old_snapshot, Frame, NewSnapshot new_snapshot, Frame, Frame]
        viewer0)
     = [100..<200] @ nodes new_snapshot @ [200..<250]
   \<and> animationFrames
     (reveal_run [NewSnapshot old_snapshot, Frame, NewSnapshot new_snapshot, Frame, Frame]
        viewer0)
     = []"
proof -
  have "reveal_run [NewSnapshot old_snapshot, Frame, NewSnapshot new_snapshot, Frame, Frame] viewer0
     = animation_frame (animation_frame
         (reveal_run [NewSnapshot old_snapshot, Frame, NewSnapshot new_snapshot] viewer0))"
    by (simp add: reveal_run_def)
  moreover have "nodes new_snapshot = [1000..<1003]"
    by (simp add: new_snapshot_def)
  ultimately show ?thesis
    by (simp add: reveal_at_new_snapshot animation_frame_def addNodes_def chunkSize_def)
qed

section \<open>The offload gate\<close>

text \<open>From a state with at most one pending worker, and the flag set while a worker is
  pending, every event leads to such a state: no two offloads are in flight at a time.\<close>

lemma one_offload_in_flight:
  "length (workers v) \<le> 1 \<and> (workers v \<noteq> [] \<longrightarrow> workerRunning v) \<Longrightarrow>
   length (workers (offload_step e v)) \<le> 1
   \<and> (workers (offload_step e v) \<noteq> [] \<longrightarrow> workerRunning (offload_step e v))"
  by (cases e) (auto simp add: worker_effect_def onmessage_def remove_nth_def)

lemma offload_run_one_in_flight:
  "length (workers v) \<le> 1 \<and> (workers v \<noteq> [] \<longrightarrow> workerRunning v) \<Longrightarrow>
   length (workers (offload_run evs v)) \<le> 1"
proof (induction evs arbitrary: v)
  case Nil
  then show ?case by (simp add: offload_run_def)
next
  case (Cons e evs)
  from Cons.prems have "length (workers (offload_step e v)) \<le> 1
      \<and> (workers (offload_step e v) \<noteq> [] \<longrightarrow> workerRunning (offload_step e v))"
    by (rule one_offload_in_flight)
  then have "length (workers (offload_run evs (offload_step e v))) \<le> 1"
    by (rule Cons.IH)
  then show ?case by (simp add: offload_run_def)
qed

lemma onmessage_clears_flag: "\<not> workerRunning (onmessage event_data v)"
  by (simp add: onmessage_def)

text \<open>
  Claim C5.  The claim is that the in-flight flag is cleared also when the background
  task fails.  The component sets \<^verbatim>\<open>onmessage\<close> only, no \<^verbatim>\<open>onerror\<close>, and the effect
  returns no cleanup: after a dataset of 1001 nodes is submitted and its worker fails, no
  worker is pending and the flag is still set, so that no later dataset \<open>d\<close>, however
  large, is offloaded.
\<close>

theorem offload_gate_stuck_after_error:
  "workerRunning (offload_run [SetData big_data, WorkerError 0] viewer0)
   \<and> workers (offload_run [SetData big_data, WorkerError 0] viewer0) = []
   \<and> workerRunning (offload_step (SetData d) (offload_run [SetData big_data, WorkerError 0] viewer0))
   \<and> workers (offload_step (SetData d) (offload_run [SetData big_data, WorkerError 0] viewer0)) = []"
  by (simp add: offload_run_def worker_effect_def big_data_def viewer0_def remove_nth_def)

end
